theory Spec2Isabelle
  imports Complex_Main "HOL-Library.AList"
begin

section \<open>Data model\<close>

text \<open>
  The backtester works on a pandas DataFrame of float64 columns. A float is idealised as an
  exact real number or the missing value NaN; rounding and the infinities are outside the
  model. Arithmetic and comparisons follow IEEE on that domain: an operation with a NaN
  operand is NaN, a comparison with a NaN operand is false.
\<close>

datatype cell = NaN | Num real

fun fadd :: "cell \<Rightarrow> cell \<Rightarrow> cell" where
  "fadd (Num a) (Num b) = Num (a + b)"
| "fadd _ _ = NaN"

fun fsub :: "cell \<Rightarrow> cell \<Rightarrow> cell" where
  "fsub (Num a) (Num b) = Num (a - b)"
| "fsub _ _ = NaN"

fun fgt :: "cell \<Rightarrow> cell \<Rightarrow> bool" where
  "fgt (Num a) (Num b) = (a > b)"
| "fgt _ _ = False"

fun flt :: "cell \<Rightarrow> cell \<Rightarrow> bool" where
  "flt (Num a) (Num b) = (a < b)"
| "flt _ _ = False"


text \<open>Python's \<^verbatim>\<open>int(x)\<close> on a float truncates towards zero.\<close>

definition py_int_of_float :: "real \<Rightarrow> int" where
  "py_int_of_float x = (if 0 \<le> x then \<lfloor>x\<rfloor> else \<lceil>x\<rceil>)"

datatype error = KeyError | ValueError | IndexError | ZeroDivisionError

text \<open>
  One row of the frame, as \<^verbatim>\<open>iterrows\<close> yields it: a Series from column labels to values,
  here an association list; \<^verbatim>\<open>row[name]\<close> reads the first entry of that label and raises
  KeyError (\<open>None\<close>) where the label is absent. A frame is its column labels and its rows,
  each with its index key. A column read as a whole, \<^verbatim>\<open>df[name]\<close>, raises KeyError where the
  label is not a column of the frame; a row holding no entry for a column reads as NaN.
\<close>

type_synonym row = "(string \<times> cell) list"

record frame =
  columns :: "string list"
  rows :: "(int \<times> row) list"

definition getitem :: "row \<Rightarrow> string \<Rightarrow> cell option" where
  "getitem r name = map_of r name"

definition cell_at :: "row \<Rightarrow> string \<Rightarrow> cell" where
  "cell_at r name = (case map_of r name of Some c \<Rightarrow> c | None \<Rightarrow> NaN)"

text \<open>\<^verbatim>\<open>df[name] = v\<close> for a scalar \<open>v\<close>: overwrite the column, or append it.\<close>

definition setitem :: "string \<Rightarrow> cell \<Rightarrow> frame \<Rightarrow> frame" where
  "setitem name v df =
     \<lparr>columns = (if name \<in> set (columns df) then columns df else columns df @ [name]),
      rows = map (\<lambda>(k, r). (k, AList.update name v r)) (rows df)\<rparr>"

text \<open>\<^verbatim>\<open>df.loc[mask, name] = v\<close> for a boolean mask computed row by row.\<close>

definition loc_mask_set :: "(row \<Rightarrow> bool) \<Rightarrow> string \<Rightarrow> cell \<Rightarrow> frame \<Rightarrow> frame" where
  "loc_mask_set msk name v df =
     df\<lparr>rows := map (\<lambda>(k, r). (k, if msk r then AList.update name v r else r)) (rows df)\<rparr>"

datatype action = BUY | SELL

type_synonym trade = "int \<times> action \<times> cell"

text \<open>The attributes of a \<^verbatim>\<open>Backtester\<close> object.\<close>

record backtester =
  data :: frame
  initial_balance :: real
  balance :: cell
  position :: int
  trades :: "trade list"

definition Backtester_init :: "frame \<Rightarrow> real \<Rightarrow> backtester" where
  "Backtester_init df b =
     \<lparr>data = df, initial_balance = b, balance = Num b, position = 0, trades = []\<rparr>"

section \<open>Trade execution\<close>

text \<open>
  The body of the loop of \<^verbatim>\<open>execute_trades\<close> once signal and close price of the row are
  read: a NaN signal skips the row, any other is truncated to an integer and run through the
  if/elif chain, statement by statement.
\<close>

definition trade_step :: "backtester \<Rightarrow> int \<Rightarrow> cell \<Rightarrow> cell \<Rightarrow> backtester" where
  "trade_step bt idx sg close_price =
     (case sg of
        NaN \<Rightarrow> bt
      | Num v \<Rightarrow>
          (let signal = py_int_of_float v in
           if signal = 1 \<and> position bt \<le> 0 then
             (let bt1 = bt\<lparr>trades := trades bt @ [(idx, BUY, close_price)]\<rparr>;
                  bt2 = bt1\<lparr>position := 1\<rparr>
              in bt2\<lparr>balance := fsub (balance bt2) close_price\<rparr>)
           else if signal = - 1 \<and> position bt \<ge> 0 then
             (let bt1 = (if position bt = 1
                         then bt\<lparr>trades := trades bt @ [(idx, SELL, close_price)],
                                 balance := fadd (balance bt) close_price\<rparr>
                         else bt);
                  bt2 = bt1\<lparr>position := - 1\<rparr>;
                  bt3 = bt2\<lparr>balance := fadd (balance bt2) close_price\<rparr>;
                  bt4 = bt3\<lparr>balance := fsub (balance bt3) close_price\<rparr>
              in bt4\<lparr>position := - 1\<rparr>)
           else if signal = 0 \<and> position bt \<noteq> 0 then
             (let bt1 = (if position bt = 1
                         then bt\<lparr>trades := trades bt @ [(idx, SELL, close_price)],
                                 balance := fadd (balance bt) close_price\<rparr>
                         else if position bt = - 1
                         then bt\<lparr>trades := trades bt @ [(idx, BUY, close_price)],
                                 balance := fsub (balance bt) close_price\<rparr>
                         else bt)
              in bt1\<lparr>position := 0\<rparr>)
           else bt))"

text \<open>
  One iteration: a row without a \<^verbatim>\<open>Signal\<close> or a \<^verbatim>\<open>Close\<close> entry raises KeyError inside the
  \<^verbatim>\<open>try\<close> and is skipped.
\<close>

definition exec_row :: "backtester \<Rightarrow> int \<times> row \<Rightarrow> backtester" where
  "exec_row bt kr =
     (case getitem (snd kr) ''Signal'' of
        None \<Rightarrow> bt
      | Some sg \<Rightarrow>
          (case getitem (snd kr) ''Close'' of
             None \<Rightarrow> bt
           | Some close_price \<Rightarrow> trade_step bt (fst kr) sg close_price))"

fun exec_rows :: "(int \<times> row) list \<Rightarrow> backtester \<Rightarrow> backtester" where
  "exec_rows [] bt = bt"
| "exec_rows (kr # krs) bt = exec_rows krs (exec_row bt kr)"

definition execute_trades :: "backtester \<Rightarrow> backtester" where
  "execute_trades bt = exec_rows (rows (data bt)) bt"

section \<open>Performance evaluation\<close>

text \<open>
  The start of the label slice \<^verbatim>\<open>df.loc[date:]\<close>. Where the label occurs, pandas starts at
  its first occurrence, and raises KeyError when the occurrences are not contiguous; where it
  does not occur, pandas takes the insertion point in a monotonic index and raises KeyError
  in any other.
\<close>

definition loc_start :: "int list \<Rightarrow> int \<Rightarrow> error + nat" where
  "loc_start keys date =
     (let rest = dropWhile (\<lambda>k. k \<noteq> date) keys
      in if rest = [] then
           (if sorted keys then Inr (length (takeWhile (\<lambda>k. k < date) keys))
            else if sorted (rev keys) then Inr (length (takeWhile (\<lambda>k. k > date) keys))
            else Inl KeyError)
         else if date \<in> set (dropWhile (\<lambda>k. k = date) rest) then Inl KeyError
         else Inr (length (takeWhile (\<lambda>k. k \<noteq> date) keys)))"

text \<open>\<^verbatim>\<open>df.loc[date:, name] = v\<close>.\<close>

definition loc_from_set :: "int \<Rightarrow> string \<Rightarrow> cell \<Rightarrow> frame \<Rightarrow> error + frame" where
  "loc_from_set date name v df =
     (case loc_start (map fst (rows df)) date of
        Inl e \<Rightarrow> Inl e
      | Inr i \<Rightarrow>
          Inr (df\<lparr>rows := take i (rows df) @
                 map (\<lambda>(k, r). (k, AList.update name v r)) (drop i (rows df))\<rparr>))"

fun fdiv :: "cell \<Rightarrow> real \<Rightarrow> cell" where
  "fdiv (Num a) b = Num (a / b)"
| "fdiv NaN b = NaN"

text \<open>The loop of \<^verbatim>\<open>calculate_performance\<close> over the ledger.\<close>

fun apply_trades :: "trade list \<Rightarrow> backtester \<Rightarrow> error + backtester" where
  "apply_trades [] bt = Inr bt"
| "apply_trades ((date, act, price) # ts) bt =
     (let bt1 = (case act of
                   BUY \<Rightarrow> bt\<lparr>balance := fsub (balance bt) price\<rparr>
                 | SELL \<Rightarrow> bt\<lparr>balance := fadd (balance bt) price\<rparr>)
      in case loc_from_set date ''Portfolio Value'' (balance bt1) (data bt1) of
           Inl e \<Rightarrow> Inl e
         | Inr df \<Rightarrow> apply_trades ts (bt1\<lparr>data := df\<rparr>))"

text \<open>\<^verbatim>\<open>df[name]\<close> as a Series: index key and value of every row.\<close>

definition series_of :: "frame \<Rightarrow> string \<Rightarrow> (int \<times> cell) list" where
  "series_of df name = map (\<lambda>(k, r). (k, cell_at r name)) (rows df)"

text \<open>
  \<^verbatim>\<open>calculate_performance\<close> returns the total return and the portfolio-value column, and
  leaves the object in the state returned beside them. The initial balance is a float, as the
  constructor annotates it. Dividing by an initial balance of zero raises ZeroDivisionError
  while the balance is a Python float, that is before any row has changed it; once it is a
  numpy scalar the division gives nan or an infinity, which the model has no value for: it
  returns the error in both cases.
\<close>

definition calculate_performance ::
  "backtester \<Rightarrow> error + ((cell \<times> (int \<times> cell) list) \<times> backtester)" where
  "calculate_performance bt =
     (let bt0 = bt\<lparr>data := setitem ''Portfolio Value'' (Num (initial_balance bt)) (data bt)\<rparr>
      in case apply_trades (trades bt0) bt0 of
           Inl e \<Rightarrow> Inl e
         | Inr bt1 \<Rightarrow>
             if initial_balance bt1 = 0 then Inl ZeroDivisionError
             else Inr ((fdiv (fsub (balance bt1) (Num (initial_balance bt1))) (initial_balance bt1),
                        series_of (data bt1) ''Portfolio Value''), bt1))"

section \<open>Crossover signals\<close>

definition startswith :: "string \<Rightarrow> string \<Rightarrow> bool" where
  "startswith s p = (take (length p) s = p)"

text \<open>\<^verbatim>\<open>s.split(d)\<close> for a one-character separator.\<close>

fun split_on :: "char \<Rightarrow> string \<Rightarrow> string list" where
  "split_on d [] = [[]]"
| "split_on d (c # cs) =
     (if c = d then [] # split_on d cs
      else (case split_on d cs of [] \<Rightarrow> [[c]] | w # ws \<Rightarrow> (c # w) # ws))"

text \<open>
  Python's \<^verbatim>\<open>int(s)\<close> on a string of ASCII characters without underscores: white space is
  stripped at both ends, one sign may come first, and what is left must be decimal digits
  and not empty; anything else raises ValueError (\<open>None\<close>).
\<close>

definition is_space :: "char \<Rightarrow> bool" where
  "is_space c = (let n = (of_char c :: nat) in (9 \<le> n \<and> n \<le> 13) \<or> (28 \<le> n \<and> n \<le> 32))"

definition is_digit :: "char \<Rightarrow> bool" where
  "is_digit c = (let n = (of_char c :: nat) in 48 \<le> n \<and> n \<le> 57)"

definition digits_value :: "string \<Rightarrow> nat" where
  "digits_value ds = foldl (\<lambda>a c. 10 * a + (of_char c - 48)) 0 ds"

definition py_int_of_str :: "string \<Rightarrow> int option" where
  "py_int_of_str s =
     (let t = rev (dropWhile is_space (rev (dropWhile is_space s)));
          neg = (t \<noteq> [] \<and> hd t = CHR ''-'');
          ds = (if t \<noteq> [] \<and> (hd t = CHR ''-'' \<or> hd t = CHR ''+'') then tl t else t)
      in if ds \<noteq> [] \<and> list_all is_digit ds
         then Some (if neg then - int (digits_value ds) else int (digits_value ds))
         else None)"

text \<open>The sort key \<^verbatim>\<open>int(x.split('_')[1])\<close>.\<close>

definition window_of :: "string \<Rightarrow> error + int" where
  "window_of x =
     (case split_on CHR ''_'' x of
        _ # w # _ \<Rightarrow> (case py_int_of_str w of None \<Rightarrow> Inl ValueError | Some n \<Rightarrow> Inr n)
      | _ \<Rightarrow> Inl IndexError)"

fun windows_of :: "string list \<Rightarrow> error + (int \<times> string) list" where
  "windows_of [] = Inr []"
| "windows_of (x # xs) =
     (case window_of x of
        Inl e \<Rightarrow> Inl e
      | Inr n \<Rightarrow> (case windows_of xs of Inl e \<Rightarrow> Inl e | Inr ks \<Rightarrow> Inr ((n, x) # ks)))"

text \<open>\<^verbatim>\<open>ma_columns.sort(key=...)\<close>: a stable sort, the key computed for every element.\<close>

definition sort_by_window :: "string list \<Rightarrow> error + string list" where
  "sort_by_window xs =
     (case windows_of xs of Inl e \<Rightarrow> Inl e | Inr ks \<Rightarrow> Inr (map snd (sort_key fst ks)))"

text \<open>The choice of the short and the long moving-average column.\<close>

definition select_ma :: "string list \<Rightarrow> error + (string \<times> string)" where
  "select_ma cols =
     (let ma_columns = filter (\<lambda>col. startswith col ''MA_'') cols
      in if length ma_columns \<ge> 2 then
           (case sort_by_window ma_columns of
              Inl e \<Rightarrow> Inl e
            | Inr sorted_columns \<Rightarrow>
                (case sorted_columns of
                   short_ma # long_ma # _ \<Rightarrow> Inr (short_ma, long_ma)
                 | _ \<Rightarrow> Inl IndexError))
         else Inr (''MA_20'', ''MA_50''))"

text \<open>
  \<^verbatim>\<open>generate_signals\<close> of the base class. The definition is exact where each of the two
  labels selected names one column of the frame. A label that names several columns makes
  \<^verbatim>\<open>self.data[label]\<close> a DataFrame and the assignment through \<^verbatim>\<open>.loc\<close> raise KeyError,
  where the definition reads the first of these columns.
\<close>

definition generate_signals :: "backtester \<Rightarrow> error + backtester" where
  "generate_signals bt =
     (let df0 = setitem ''Signal'' (Num 0) (data bt)
      in case select_ma (columns df0) of
           Inl e \<Rightarrow> Inl e
         | Inr (short_ma, long_ma) \<Rightarrow>
             if short_ma \<in> set (columns df0) \<and> long_ma \<in> set (columns df0) then
               (let df1 = loc_mask_set (\<lambda>r. fgt (cell_at r short_ma) (cell_at r long_ma))
                            ''Signal'' (Num 1) df0;
                    df2 = loc_mask_set (\<lambda>r. flt (cell_at r short_ma) (cell_at r long_ma))
                            ''Signal'' (Num (- 1)) df1
                in Inr (bt\<lparr>data := df2\<rparr>))
             else Inl KeyError)"


section \<open>Robustness harness\<close>

text \<open>
  \<^verbatim>\<open>data.sample(frac=1).reset_index(drop=True)\<close>: the rows in the order of a permutation
  \<open>perm\<close> of their positions, which the random generator draws and the model takes as an
  argument, under a fresh index 0, 1, 2, ...
\<close>

definition sample_reset_index :: "nat list \<Rightarrow> frame \<Rightarrow> frame" where
  "sample_reset_index perm df =
     df\<lparr>rows := map (\<lambda>(i, r). (int i, r)) (enumerate 0 (map (\<lambda>j. snd (rows df ! j)) perm))\<rparr>"

text \<open>
  \<^verbatim>\<open>forward_test\<close> on an object of the class \<^verbatim>\<open>Backtester\<close> runs the pipeline once on the new
  data, from a reset object.
\<close>

definition forward_test :: "frame \<Rightarrow> backtester \<Rightarrow> error + (cell \<times> backtester)" where
  "forward_test new_data bt =
     (let bt0 = Backtester_init new_data (initial_balance bt)
      in case generate_signals bt0 of
           Inl e \<Rightarrow> Inl e
         | Inr bt1 \<Rightarrow>
             (case calculate_performance (execute_trades bt1) of
                Inl e \<Rightarrow> Inl e
              | Inr (res, bt2) \<Rightarrow> Inr (fst res, bt2)))"




section \<open>Momentum signals\<close>




section \<open>The momentum backtester\<close>

text \<open>
  \<^verbatim>\<open>fillna(0).astype(int)\<close> on one value, for values whose integer part is in the range of
  int64; the cast of a larger value wraps, which the definition does not follow.
\<close>

fun fillna0_astype_int :: "cell \<Rightarrow> cell" where
  "fillna0_astype_int NaN = Num 0"
| "fillna0_astype_int (Num v) = Num (of_int (py_int_of_float v))"

definition m_generate_signals :: "backtester \<Rightarrow> error + backtester" where
  "m_generate_signals bt =
     (if ''Signal'' \<notin> set (columns (data bt)) then Inl ValueError
      else Inr (bt\<lparr>data := (data bt)\<lparr>rows :=
             map (\<lambda>(k, r). (k, AList.update ''Signal'' (fillna0_astype_int (cell_at r ''Signal'')) r))
               (rows (data bt))\<rparr>\<rparr>))"

text \<open>The override only prints after the inherited \<^verbatim>\<open>execute_trades\<close>.\<close>

definition m_execute_trades :: "backtester \<Rightarrow> backtester" where
  "m_execute_trades bt = execute_trades bt"

definition MomentumBacktester_init :: "frame \<Rightarrow> real \<Rightarrow> error + backtester" where
  "MomentumBacktester_init df b =
     (case m_generate_signals (Backtester_init df b) of
        Inl e \<Rightarrow> Inl e
      | Inr bt \<Rightarrow> Inr (m_execute_trades bt))"

definition m_run_backtest ::
  "backtester \<Rightarrow> error + ((cell \<times> (int \<times> cell) list) \<times> backtester)" where
  "m_run_backtest bt =
     (case m_generate_signals bt of
        Inl e \<Rightarrow> Inl e
      | Inr bt1 \<Rightarrow> calculate_performance (m_execute_trades bt1))"

text \<open>
  The same loop body on an object of the class \<^verbatim>\<open>MomentumBacktester\<close>, which inherits
  \<^verbatim>\<open>monte_carlo_backtest\<close>: the three calls go to the overrides, so that the constructor
  has generated the signals and executed the rows once when the loop body does both again.
\<close>

definition m_mc_trial :: "nat list \<Rightarrow> backtester \<Rightarrow> error + (cell \<times> backtester)" where
  "m_mc_trial perm bt =
     (let shuffled_data = sample_reset_index perm (data bt)
      in case MomentumBacktester_init shuffled_data (initial_balance bt) of
           Inl e \<Rightarrow> Inl e
         | Inr bt0 \<Rightarrow>
             (case m_generate_signals bt0 of
                Inl e \<Rightarrow> Inl e
              | Inr bt1 \<Rightarrow>
                  (case calculate_performance (m_execute_trades bt1) of
                     Inl e \<Rightarrow> Inl e
                   | Inr (res, bt2) \<Rightarrow> Inr (fst res, bt2))))"

fun m_mc_trials ::
  "(nat \<Rightarrow> nat list) \<Rightarrow> nat \<Rightarrow> nat \<Rightarrow> backtester \<Rightarrow> error + (cell list \<times> backtester)" where
  "m_mc_trials draw i 0 bt = Inr ([], bt)"
| "m_mc_trials draw i (Suc n) bt =
     (case m_mc_trial (draw i) bt of
        Inl e \<Rightarrow> Inl e
      | Inr (total_return, bt1) \<Rightarrow>
          (case m_mc_trials draw (Suc i) n bt1 of
             Inl e \<Rightarrow> Inl e
           | Inr (returns, bt2) \<Rightarrow> Inr (total_return # returns, bt2)))"

definition m_monte_carlo_backtest ::
  "(nat \<Rightarrow> nat list) \<Rightarrow> int \<Rightarrow> backtester \<Rightarrow> error + (cell list \<times> backtester)" where
  "m_monte_carlo_backtest draw n_simulations bt = m_mc_trials draw 0 (nat n_simulations) bt"

section \<open>Frames used as concrete inputs\<close>

text \<open>Frames with a close price and a signal in every row, under the index 0, 1, ...\<close>

definition one_row_frame :: "real \<Rightarrow> real \<Rightarrow> frame" where
  "one_row_frame p s =
     \<lparr>columns = [''Close'', ''Signal''],
      rows = [(0, [(''Close'', Num p), (''Signal'', Num s)])]\<rparr>"

definition two_row_frame :: "real \<Rightarrow> real \<Rightarrow> real \<Rightarrow> real \<Rightarrow> frame" where
  "two_row_frame p1 s1 p2 s2 =
     \<lparr>columns = [''Close'', ''Signal''],
      rows = [(0, [(''Close'', Num p1), (''Signal'', Num s1)]),
              (1, [(''Close'', Num p2), (''Signal'', Num s2)])]\<rparr>"

text \<open>A buy signal at price \<open>p1\<close> under key \<open>k1\<close>, then a 0 signal at \<open>p2\<close> under \<open>k2\<close>.\<close>

definition round_trip_frame :: "int \<Rightarrow> real \<Rightarrow> int \<Rightarrow> real \<Rightarrow> frame" where
  "round_trip_frame k1 p1 k2 p2 =
     \<lparr>columns = [''Close'', ''Signal''],
      rows = [(k1, [(''Close'', Num p1), (''Signal'', Num 1)]),
              (k2, [(''Close'', Num p2), (''Signal'', Num 0)])]\<rparr>"




section \<open>The trades a run appends\<close>

text \<open>
  An object in position \<open>q\<close> with an empty ledger, and the ledger \<^verbatim>\<open>execute_trades\<close> builds
  from it over the given rows: the trades a run appends from position \<open>q\<close>.
\<close>

definition blank :: "int \<Rightarrow> backtester" where
  "blank q = \<lparr>data = \<lparr>columns = [], rows = []\<rparr>, initial_balance = 0, balance = NaN,
              position = q, trades = []\<rparr>"

definition new_trades :: "int \<Rightarrow> (int \<times> row) list \<Rightarrow> trade list" where
  "new_trades q rs = trades (exec_rows rs (blank q))"

text \<open>
  The integer signal of a row that reaches the if/elif chain: the row has a signal that is
  not NaN and a close price.
\<close>

definition row_signal :: "int \<times> row \<Rightarrow> int option" where
  "row_signal kr =
     (case getitem (snd kr) ''Signal'' of
        Some (Num v) \<Rightarrow>
          (case getitem (snd kr) ''Close'' of Some cp \<Rightarrow> Some (py_int_of_float v) | None \<Rightarrow> None)
      | _ \<Rightarrow> None)"

section \<open>The position stays in its domain\<close>

lemma py_int_of_float_simps [simp]:
  "py_int_of_float (of_int n) = n"
  "py_int_of_float 0 = 0" "py_int_of_float 1 = 1" "py_int_of_float (- 1) = - 1"
  "py_int_of_float (numeral w) = numeral w"
  "py_int_of_float (- numeral w) = - numeral w"
  using of_int_minus [where ?'a = real]
  by (simp_all add: py_int_of_float_def ceiling_def)

lemmas exec_defs = execute_trades_def Backtester_init_def exec_row_def getitem_def
  trade_step_def Let_def

lemma trade_step_position:
  "position bt \<in> {- 1, 0, 1} \<Longrightarrow> position (trade_step bt idx sg cp) \<in> {- 1, 0, 1}"
  by (cases sg) (simp_all add: trade_step_def Let_def)

lemma exec_row_position:
  "position bt \<in> {- 1, 0, 1} \<Longrightarrow> position (exec_row bt kr) \<in> {- 1, 0, 1}"
  using trade_step_position by (auto simp: exec_row_def split: option.split)

lemma exec_rows_position:
  "position bt \<in> {- 1, 0, 1} \<Longrightarrow> position (exec_rows rs bt) \<in> {- 1, 0, 1}"
proof (induction rs arbitrary: bt)
  case Nil
  then show ?case by simp
next
  case (Cons kr rs)
  show ?case using Cons.IH [OF exec_row_position [OF Cons.prems]] by simp
qed

lemma execute_trades_position:
  "position bt \<in> {- 1, 0, 1} \<Longrightarrow> position (execute_trades bt) \<in> {- 1, 0, 1}"
  unfolding execute_trades_def by (rule exec_rows_position)

text \<open>
  Claim C6. The position is 0 when the backtester is initialised, and it is one of -1, 0, 1
  after every iteration of the loop of \<^verbatim>\<open>execute_trades\<close>, whatever the frame holds: signals
  of any value, NaN, rows without a signal or a close price. The state after \<open>n\<close> iterations
  is the run over the first \<open>n\<close> rows.
\<close>

theorem position_invariant:
  "position (Backtester_init df b) = 0 \<and>
   position (exec_rows (take n (rows df)) (Backtester_init df b)) \<in> {- 1, 0, 1}"
proof -
  have "position (Backtester_init df b) = 0" by (simp add: Backtester_init_def)
  then show ?thesis using exec_rows_position [of "Backtester_init df b"] by simp
qed

section \<open>A buy followed by a close\<close>

lemma round_trip_ledger:
  "execute_trades (Backtester_init (round_trip_frame k1 p1 k2 p2) b) =
     \<lparr>data = round_trip_frame k1 p1 k2 p2, initial_balance = b, balance = Num (b - p1 + p2),
      position = 0, trades = [(k1, BUY, Num p1), (k2, SELL, Num p2)]\<rparr>"
  by (simp add: exec_defs round_trip_frame_def)

lemma loc_start_two:
  "loc_start [k1, k2] k1 = Inr 0" "loc_start [k1, k2] k2 = Inr (if k1 = k2 then 0 else 1)"
  by (simp_all add: loc_start_def)

text \<open>
  \<^verbatim>\<open>execute_trades\<close> has moved the balance by the two trades already when
  \<^verbatim>\<open>calculate_performance\<close> applies the ledger to it once more: for every pair of keys and
  prices the total return is twice the profit of the round trip over the initial balance.
\<close>

lemma round_trip_return:
  assumes "b \<noteq> 0"
  shows "map_sum id (fst \<circ> fst)
           (calculate_performance
              (execute_trades (Backtester_init (round_trip_frame k1 p1 k2 p2) b)))
         = Inr (Num (2 * (p2 - p1) / b))"
  unfolding round_trip_ledger using assms
  by (simp add: calculate_performance_def setitem_def round_trip_frame_def
      loc_from_set_def loc_start_two Let_def field_simps)

text \<open>
  Claim C1 says that a +1 signal at price p1 followed by a 0 signal at p2 gives the ledger
  [BUY at p1, SELL at p2] and the total return (p2 - p1) / b. The ledger is as claimed. The
  return is not: for prices 100 and 110 and the initial balance 10000 the code returns
  20 / 10000, where the claim has 10 / 10000.
\<close>

theorem round_trip_return_counts_trades_twice:
  "trades (execute_trades (Backtester_init (round_trip_frame 0 100 1 110) 10000)) =
     [(0, BUY, Num 100), (1, SELL, Num 110)] \<and>
   map_sum id (fst \<circ> fst)
     (calculate_performance
        (execute_trades (Backtester_init (round_trip_frame 0 100 1 110) 10000)))
     = Inr (Num (20 / 10000)) \<and>
   Num (20 / 10000) \<noteq> Num ((110 - 100) / 10000)"
  unfolding round_trip_ledger
  by (simp add: calculate_performance_def setitem_def round_trip_frame_def
      loc_from_set_def loc_start_two Let_def)

section \<open>The sell signal\<close>

text \<open>
  From FLAT the branch of the sell signal adds the close price to the balance and subtracts
  it again, and records no trade: the balance is the one before, or NaN where price or
  balance is NaN.
\<close>

lemma sell_signal_from_flat:
  "position bt = 0 \<Longrightarrow>
   trade_step bt idx (Num (- 1)) cp =
     bt\<lparr>position := - 1, balance := fsub (fadd (balance bt) cp) cp\<rparr>"
  by (simp add: trade_step_def Let_def)

lemma fsub_fadd_same: "fsub (fadd (Num c) (Num p)) (Num p) = Num c"
  by simp

text \<open>From LONG it records one SELL, and the balance is up by one close price.\<close>

lemma sell_signal_from_long:
  "position bt = 1 \<Longrightarrow> balance bt = Num c \<Longrightarrow>
   trade_step bt idx (Num (- 1)) (Num p) =
     bt\<lparr>trades := trades bt @ [(idx, SELL, Num p)], balance := Num (c + p), position := - 1\<rparr>"
  by (simp add: trade_step_def Let_def)

text \<open>
  Claim C2 says that a -1 signal met while FLAT raises the balance by the close price and
  makes the position SHORT, and that from LONG it records one SELL, raises the balance by one
  close price and makes the position SHORT. The second half holds
  (\<open>sell_signal_from_long\<close>). The first does not: with one row of close price 100 and
  signal -1 and the initial balance 10000, the position becomes -1, no trade is recorded and the
  balance is still 10000, where the claim has 10100.
\<close>

theorem short_entry_from_flat_moves_no_cash:
  "execute_trades (Backtester_init (one_row_frame 100 (- 1)) 10000) =
     \<lparr>data = one_row_frame 100 (- 1), initial_balance = 10000, balance = Num 10000,
      position = - 1, trades = []\<rparr> \<and>
   Num 10000 \<noteq> Num (10000 + 100)"
  by (simp add: exec_defs one_row_frame_def)

section \<open>What the evaluation changes\<close>

lemma apply_trades_frame:
  "apply_trades ts bt = Inr bt' \<Longrightarrow>
   trades bt' = trades bt \<and> initial_balance bt' = initial_balance bt \<and>
   position bt' = position bt"
proof (induction ts arbitrary: bt)
  case Nil
  then show ?case by simp
next
  case (Cons t ts)
  obtain d a p where t: "t = (d, a, p)" by (cases t)
  show ?case
    using Cons.prems Cons.IH
    by (cases a) (auto simp: t Let_def split: sum.splits)
qed

text \<open>The ledger is the same after \<^verbatim>\<open>calculate_performance\<close>.\<close>

lemma calculate_performance_ledger:
  "calculate_performance bt = Inr (res, bt') \<Longrightarrow> trades bt' = trades bt"
  by (auto simp: calculate_performance_def Let_def split: sum.splits if_splits
      dest!: apply_trades_frame)

lemma cell_at_update [simp]:
  "cell_at (AList.update name v r) name' = (if name' = name then v else cell_at r name')"
  by (simp add: cell_at_def update_conv')


text \<open>
  Claim C3 says that \<^verbatim>\<open>calculate_performance\<close> has no effect but its result, and leaves the
  cash balance and the ledger as they are. The ledger it leaves, and an empty ledger gives
  return 0 and a constant curve (the two lemmas above). The balance it does not leave: after
  one buy at 50 from the initial balance 1000 the balance is 950, and the call takes the 50
  off once more.
\<close>

theorem calculate_performance_moves_balance:
  "balance (execute_trades (Backtester_init (one_row_frame 50 1) 1000)) = Num 950 \<and>
   map_sum id (balance \<circ> snd)
     (calculate_performance (execute_trades (Backtester_init (one_row_frame 50 1) 1000)))
     = Inr (Num 900)"
  by (simp add: exec_defs one_row_frame_def calculate_performance_def setitem_def
      loc_from_set_def loc_start_def)

section \<open>Signals outside the domain\<close>

text \<open>
  Counterexample to claim C5 as stated. After a buy, a signal 2 leaves the position LONG and
  the ledger as it is, where a signal 0 in the same row sells and goes FLAT.
\<close>

theorem out_of_domain_is_not_signal_zero:
  "position (execute_trades (Backtester_init (two_row_frame 100 1 110 2) 10000)) = 1 \<and>
   position (execute_trades (Backtester_init (two_row_frame 100 1 110 0) 10000)) = 0 \<and>
   trades (execute_trades (Backtester_init (two_row_frame 100 1 110 2) 10000)) =
     [(0, BUY, Num 100)] \<and>
   trades (execute_trades (Backtester_init (two_row_frame 100 1 110 0) 10000)) =
     [(0, BUY, Num 100), (1, SELL, Num 110)]"
  by (simp add: exec_defs two_row_frame_def)

text \<open>
  Claim C5, amended. A signal whose integer value is not -1, 0 or 1 is a no-op: position,
  balance and ledger after the row are those before it. That is what signal 0 does in the
  same row when the position is FLAT.
\<close>

theorem out_of_domain_signal_noop:
  assumes "py_int_of_float v \<notin> {- 1, 0, 1}"
  shows "trade_step bt idx (Num v) cp = bt \<and>
         (position bt = 0 \<longrightarrow> trade_step bt idx (Num v) cp = trade_step bt idx (Num 0) cp)"
  using assms by (simp add: trade_step_def Let_def)

theorem out_of_domain_signal_noop_witness:
  "py_int_of_float 2.5 \<notin> {- 1, 0, 1} \<and>
   trade_step (Backtester_init (one_row_frame 100 2.5) 10000) 0 (Num 2.5) (Num 100) =
     Backtester_init (one_row_frame 100 2.5) 10000 \<and>
   trade_step (Backtester_init (one_row_frame 100 2.5) 10000) 0 (Num 2.5) (Num 100) =
     trade_step (Backtester_init (one_row_frame 100 2.5) 10000) 0 (Num 0) (Num 100)"
proof -
  have h: "py_int_of_float 2.5 \<notin> {- 1, 0, 1}" by (simp add: py_int_of_float_def)
  have p: "position (Backtester_init (one_row_frame 100 2.5) 10000) = 0"
    by (simp add: Backtester_init_def)
  note t = out_of_domain_signal_noop
    [OF h, of "Backtester_init (one_row_frame 100 2.5) 10000" 0 "Num 100"]
  show ?thesis
    by (intro conjI) (rule h, rule conjunct1 [OF t], rule mp [OF conjunct2 [OF t] p])
qed

section \<open>Crossover signals are the sign of short minus long\<close>



















section \<open>Momentum signals against threshold and median\<close>






section \<open>Empty input\<close>








section \<open>Running the momentum backtester after its construction\<close>

lemma trade_step_split:
  "trades (trade_step bt idx sg cp) = trades bt @ trades (trade_step (blank (position bt)) idx sg cp) \<and>
   position (trade_step bt idx sg cp) = position (trade_step (blank (position bt)) idx sg cp) \<and>
   data (trade_step bt idx sg cp) = data bt \<and>
   initial_balance (trade_step bt idx sg cp) = initial_balance bt"
  by (cases sg) (simp_all add: trade_step_def Let_def blank_def)

lemma exec_row_split:
  "trades (exec_row bt kr) = trades bt @ trades (exec_row (blank (position bt)) kr) \<and>
   position (exec_row bt kr) = position (exec_row (blank (position bt)) kr) \<and>
   data (exec_row bt kr) = data bt \<and>
   initial_balance (exec_row bt kr) = initial_balance bt"
proof -
  have p: "position (blank (position bt)) = position bt" "trades (blank q) = []" for q
    by (simp_all add: blank_def)
  show ?thesis
    using trade_step_split [of bt] p
    by (simp add: exec_row_def split: option.split)
qed

lemma exec_rows_split:
  "trades (exec_rows rs bt) = trades bt @ new_trades (position bt) rs \<and>
   position (exec_rows rs bt) = position (exec_rows rs (blank (position bt))) \<and>
   data (exec_rows rs bt) = data bt \<and>
   initial_balance (exec_rows rs bt) = initial_balance bt"
proof (induction rs arbitrary: bt)
  case Nil
  show ?case by (simp add: new_trades_def blank_def)
next
  case (Cons kr rs)
  let ?q = "position bt"
  have p: "position (blank ?q) = ?q" "trades (blank ?q) = []" by (simp_all add: blank_def)
  note s = exec_row_split [of bt kr]
  note a = Cons.IH [of "exec_row bt kr"]
  note c = Cons.IH [of "exec_row (blank ?q) kr"]
  have "new_trades ?q (kr # rs) = trades (exec_rows rs (exec_row (blank ?q) kr))"
    by (simp add: new_trades_def)
  also have "\<dots> = trades (exec_row (blank ?q) kr) @
      new_trades (position (exec_row (blank ?q) kr)) rs"
    using c by simp
  finally have n: "new_trades ?q (kr # rs) =
      trades (exec_row (blank ?q) kr) @ new_trades (position (exec_row bt kr)) rs"
    using s by simp
  show ?case
    using a c s n by simp
qed

lemma new_trades_Cons:
  "new_trades q (kr # rs) =
     trades (exec_row (blank q) kr) @ new_trades (position (exec_row (blank q) kr)) rs"
  using exec_rows_split [of rs "exec_row (blank q) kr"]
  by (simp add: new_trades_def)

lemma exec_row_no_signal: "row_signal kr = None \<Longrightarrow> exec_row bt kr = bt"
  by (auto simp: row_signal_def exec_row_def trade_step_def split: option.splits cell.splits)

lemma exec_row_signal:
  assumes "row_signal kr = Some s" and "q \<in> {- 1, 0, 1}"
  shows "position (exec_row (blank q) kr) = (if s \<in> {- 1, 0, 1} then s else q) \<and>
         (trades (exec_row (blank q) kr) = [] \<longleftrightarrow>
            s \<notin> {- 1, 0, 1} \<or> s = q \<or> (s = - 1 \<and> q = 0))"
  using assms
  by (auto simp: row_signal_def exec_row_def trade_step_def blank_def Let_def
      split: option.splits cell.splits)

text \<open>From LONG, a run that appends nothing has met no signal 0 or -1.\<close>

lemma new_trades_long_none:
  "new_trades 1 rs = [] \<Longrightarrow> kr \<in> set rs \<Longrightarrow> row_signal kr \<notin> {Some 0, Some (- 1)}"
proof (induction rs)
  case Nil
  then show ?case by simp
next
  case (Cons r rs)
  show ?case
  proof (cases "row_signal r")
    case None
    then have "new_trades 1 (r # rs) = new_trades 1 rs"
      by (simp add: new_trades_Cons exec_row_no_signal blank_def)
    with Cons None show ?thesis by auto
  next
    case (Some s)
    note e = exec_row_signal [OF Some, of 1]
    from Cons.prems(1) have t: "trades (exec_row (blank 1) r) = []"
      and n: "new_trades (position (exec_row (blank 1) r)) rs = []"
      by (simp_all add: new_trades_Cons)
    from t e have s: "s \<notin> {- 1, 0, 1} \<or> s = 1" by auto
    with e have "position (exec_row (blank 1) r) = 1" by auto
    with n have "new_trades 1 rs = []" by simp
    with Cons s Some show ?thesis by auto
  qed
qed

text \<open>
  A run that appends a trade from FLAT, over rows with a signal 0 or -1 among them, appends a
  trade from any position.
\<close>

lemma new_trades_again:
  assumes "q \<in> {- 1, 0, 1}" and "new_trades 0 rs \<noteq> []"
    and "\<exists>kr \<in> set rs. row_signal kr \<in> {Some 0, Some (- 1)}"
  shows "new_trades q rs \<noteq> []"
  using assms
proof (induction rs)
  case Nil
  then show ?case by simp
next
  case (Cons r rs)
  show ?case
  proof (cases "row_signal r")
    case None
    then have "new_trades q' (r # rs) = new_trades q' rs" for q'
      by (simp add: new_trades_Cons exec_row_no_signal blank_def)
    with Cons None show ?thesis by auto
  next
    case (Some s)
    note e0 = exec_row_signal [OF Some, of 0]
    note eq = exec_row_signal [OF Some Cons.prems(1)]
    show ?thesis
    proof (cases "s \<in> {- 1, 0, 1}")
      case False
      with e0 eq have "new_trades q' (r # rs) = new_trades q' rs" if "q' = 0 \<or> q' = q" for q'
        using that by (auto simp: new_trades_Cons)
      moreover from False Some have "row_signal r \<notin> {Some 0, Some (- 1)}" by auto
      ultimately show ?thesis using Cons by auto
    next
      case True
      with e0 eq have p: "position (exec_row (blank 0) r) = s" "position (exec_row (blank q) r) = s"
        by auto
      show ?thesis
      proof (cases "new_trades s rs = []")
        case False
        then show ?thesis by (simp add: new_trades_Cons p)
      next
        case empty: True
        with Cons.prems(2) p have "trades (exec_row (blank 0) r) \<noteq> []"
          by (simp add: new_trades_Cons)
        with e0 True have s1: "s = 1" by auto
        with empty have "\<forall>kr \<in> set rs. row_signal kr \<notin> {Some 0, Some (- 1)}"
          using new_trades_long_none by blast
        with Cons.prems(3) Some s1 show ?thesis by auto
      qed
    qed
  qed
qed

lemma fillna0_astype_int_idem [simp]:
  "fillna0_astype_int (fillna0_astype_int c) = fillna0_astype_int c"
  by (cases c) simp_all

text \<open>The coercion of the signal column changes nothing the second time.\<close>

lemma m_generate_signals_again:
  assumes "m_generate_signals bt = Inr bt1"
  shows "m_generate_signals (exec_rows rs bt1) = Inr (exec_rows rs bt1)"
proof -
  from assms have c: "''Signal'' \<in> set (columns (data bt))"
    and d: "data bt1 = (data bt)\<lparr>rows :=
             map (\<lambda>(k, r). (k, AList.update ''Signal'' (fillna0_astype_int (cell_at r ''Signal'')) r))
               (rows (data bt))\<rparr>"
    by (auto simp: m_generate_signals_def split: if_splits)
  have e: "data (exec_rows rs bt1) = data bt1"
    using exec_rows_split [of rs bt1] by simp
  have "(data bt1)\<lparr>rows :=
             map (\<lambda>(k, r). (k, AList.update ''Signal'' (fillna0_astype_int (cell_at r ''Signal'')) r))
               (rows (data bt1))\<rparr> = data bt1"
    unfolding d by (simp add: comp_def case_prod_unfold)
  then show ?thesis
    using c by (simp add: m_generate_signals_def e d)
qed


lemma m_init_state:
  assumes "MomentumBacktester_init df b = Inr bt1"
  shows "\<exists>bt0. m_generate_signals (Backtester_init df b) = Inr bt0 \<and>
           bt1 = exec_rows (rows (data bt0)) bt0 \<and> position bt0 = 0 \<and> trades bt0 = []"
  using assms
  by (auto simp: MomentumBacktester_init_def m_execute_trades_def execute_trades_def
      m_generate_signals_def Backtester_init_def split: sum.splits if_splits)

text \<open>
  Counterexample to claim C10 as stated. With the one signal +1 the construction buys, and
  \<^verbatim>\<open>run_backtest\<close> on the object constructed executes nothing more: ledger and balance
  are those of the single execution, and the run returns what the evaluation of the single
  execution returns. With a buy and a close at the same price the second execution doubles
  the ledger and leaves the balance where it was.
\<close>

theorem second_execution_may_change_nothing:
  "MomentumBacktester_init (one_row_frame 100 1) 10000 =
     Inr \<lparr>data = one_row_frame 100 1, initial_balance = 10000, balance = Num 9900,
          position = 1, trades = [(0, BUY, Num 100)]\<rparr> \<and>
   m_execute_trades
     \<lparr>data = one_row_frame 100 1, initial_balance = 10000, balance = Num 9900,
      position = 1, trades = [(0, BUY, Num 100)]\<rparr> =
     \<lparr>data = one_row_frame 100 1, initial_balance = 10000, balance = Num 9900,
      position = 1, trades = [(0, BUY, Num 100)]\<rparr> \<and>
   m_run_backtest
     \<lparr>data = one_row_frame 100 1, initial_balance = 10000, balance = Num 9900,
      position = 1, trades = [(0, BUY, Num 100)]\<rparr> =
   calculate_performance
     \<lparr>data = one_row_frame 100 1, initial_balance = 10000, balance = Num 9900,
      position = 1, trades = [(0, BUY, Num 100)]\<rparr> \<and>
   MomentumBacktester_init (two_row_frame 100 1 100 0) 10000 =
     Inr \<lparr>data = two_row_frame 100 1 100 0, initial_balance = 10000, balance = Num 10000,
          position = 0, trades = [(0, BUY, Num 100), (1, SELL, Num 100)]\<rparr> \<and>
   m_execute_trades
     \<lparr>data = two_row_frame 100 1 100 0, initial_balance = 10000, balance = Num 10000,
      position = 0, trades = [(0, BUY, Num 100), (1, SELL, Num 100)]\<rparr> =
     \<lparr>data = two_row_frame 100 1 100 0, initial_balance = 10000, balance = Num 10000,
      position = 0,
      trades = [(0, BUY, Num 100), (1, SELL, Num 100), (0, BUY, Num 100), (1, SELL, Num 100)]\<rparr>"
  by (simp add: MomentumBacktester_init_def m_run_backtest_def m_generate_signals_def
      m_execute_trades_def exec_defs one_row_frame_def two_row_frame_def cell_at_def)

text \<open>
  Claim C10, amended. The constructor of the momentum backtester has generated the signals and
  executed the trades already; \<^verbatim>\<open>run_backtest\<close> on the object constructed finds the
  signals as they are and executes the whole sequence once more from the position the
  construction ended in. The ledger that results is the ledger of the single execution
  followed by the trades of that second pass, and whenever the single execution has traded and
  some row that reaches the if/elif chain has the signal 0 or -1, the second pass adds at
  least one trade: the ledger differs. The balance is not claimed to differ.
\<close>

theorem momentum_run_executes_twice:
  assumes "MomentumBacktester_init df b = Inr bt1"
  shows "m_generate_signals bt1 = Inr bt1 \<and>
         trades (m_execute_trades bt1) =
           trades bt1 @ new_trades (position bt1) (rows (data bt1)) \<and>
         (\<forall>res bt2. m_run_backtest bt1 = Inr (res, bt2) \<longrightarrow>
            trades bt2 = trades bt1 @ new_trades (position bt1) (rows (data bt1))) \<and>
         (trades bt1 \<noteq> [] \<and>
          (\<exists>kr \<in> set (rows (data bt1)). row_signal kr \<in> {Some 0, Some (- 1)}) \<longrightarrow>
            new_trades (position bt1) (rows (data bt1)) \<noteq> [])"
proof -
  from m_init_state [OF assms] obtain bt0
    where g: "m_generate_signals (Backtester_init df b) = Inr bt0"
      and bt1: "bt1 = exec_rows (rows (data bt0)) bt0"
      and p0: "position bt0 = 0" and t0: "trades bt0 = []"
    by blast
  note s = exec_rows_split [of "rows (data bt0)" bt0]
  have d: "data bt1 = data bt0" using s by (simp add: bt1)
  have t1: "trades bt1 = new_trades 0 (rows (data bt1))"
    using s by (simp add: bt1 t0 p0)
  have q: "position bt1 \<in> {- 1, 0, 1}"
    unfolding bt1 by (rule exec_rows_position) (simp add: p0)
  have again: "m_generate_signals bt1 = Inr bt1"
    unfolding bt1 by (rule m_generate_signals_again [OF g])
  have ex: "trades (m_execute_trades bt1) =
      trades bt1 @ new_trades (position bt1) (rows (data bt1))"
    using exec_rows_split [of "rows (data bt1)" bt1]
    by (simp add: m_execute_trades_def execute_trades_def)
  have run: "trades bt2 = trades bt1 @ new_trades (position bt1) (rows (data bt1))"
    if "m_run_backtest bt1 = Inr (res, bt2)" for res bt2
    using that calculate_performance_ledger [of "m_execute_trades bt1" res bt2]
    by (simp add: m_run_backtest_def again ex)
  have more: "new_trades (position bt1) (rows (data bt1)) \<noteq> []"
    if "trades bt1 \<noteq> []"
      and "\<exists>kr \<in> set (rows (data bt1)). row_signal kr \<in> {Some 0, Some (- 1)}"
    using new_trades_again [OF q _ that(2)] that(1) t1 by simp
  show ?thesis using again ex run more by blast
qed

theorem momentum_run_executes_twice_witness:
  "MomentumBacktester_init (two_row_frame 100 1 110 0) 10000 =
     Inr \<lparr>data = two_row_frame 100 1 110 0, initial_balance = 10000, balance = Num 10010,
          position = 0, trades = [(0, BUY, Num 100), (1, SELL, Num 110)]\<rparr> \<and>
   row_signal (1, [(''Close'', Num 110), (''Signal'', Num 0)]) = Some 0 \<and>
   trades (m_execute_trades
     \<lparr>data = two_row_frame 100 1 110 0, initial_balance = 10000, balance = Num 10010,
      position = 0, trades = [(0, BUY, Num 100), (1, SELL, Num 110)]\<rparr>) =
     [(0, BUY, Num 100), (1, SELL, Num 110), (0, BUY, Num 100), (1, SELL, Num 110)] \<and>
   new_trades 0 (rows (two_row_frame 100 1 110 0)) \<noteq> []"
proof -
  let ?bt1 = "\<lparr>data = two_row_frame 100 1 110 0, initial_balance = 10000,
    balance = Num 10010, position = 0, trades = [(0, BUY, Num 100), (1, SELL, Num 110)]\<rparr>"
  have h: "MomentumBacktester_init (two_row_frame 100 1 110 0) 10000 = Inr ?bt1"
    by (simp add: MomentumBacktester_init_def m_generate_signals_def m_execute_trades_def
        exec_defs two_row_frame_def cell_at_def)
  have r: "row_signal (1, [(''Close'', Num 110), (''Signal'', Num 0)]) = Some 0"
    by (simp add: row_signal_def getitem_def)
  have n: "new_trades 0 (rows (two_row_frame 100 1 110 0)) =
      [(0, BUY, Num 100), (1, SELL, Num 110)]"
    by (simp add: new_trades_def blank_def two_row_frame_def exec_row_def getitem_def
        trade_step_def Let_def)
  have k: "(1, [(''Close'', Num 110), (''Signal'', Num 0)]) \<in> set (rows (data ?bt1))"
    by (simp add: two_row_frame_def)
  note t = momentum_run_executes_twice [OF h]
  have k': "\<exists>kr \<in> set (rows (data ?bt1)). row_signal kr \<in> {Some 0, Some (- 1)}"
    using k r by (intro bexI [OF _ k]) simp
  have p: "trades ?bt1 \<noteq> [] \<and>
      (\<exists>kr \<in> set (rows (data ?bt1)). row_signal kr \<in> {Some 0, Some (- 1)})"
    using k' by simp
  have m: "new_trades (position ?bt1) (rows (data ?bt1)) \<noteq> []"
    by (rule mp [OF conjunct2 [OF conjunct2 [OF conjunct2 [OF t]]] p])
  have e: "trades (m_execute_trades ?bt1) =
      trades ?bt1 @ new_trades (position ?bt1) (rows (data ?bt1))"
    by (rule conjunct1 [OF conjunct2 [OF t]])
  have e': "trades (m_execute_trades ?bt1) =
      [(0, BUY, Num 100), (1, SELL, Num 110), (0, BUY, Num 100), (1, SELL, Num 110)]"
    unfolding e by (simp add: n)
  have m': "new_trades 0 (rows (two_row_frame 100 1 110 0)) \<noteq> []"
    using m by simp
  show ?thesis
    by (intro conjI) (rule h, rule r, rule e', rule m')
qed

section \<open>Monte Carlo trials\<close>





















lemma m_mc_trial_reset:
  "m_mc_trial perm (bt\<lparr>balance := c, position := q, trades := ts\<rparr>) = m_mc_trial perm bt"
  by (simp add: m_mc_trial_def)




end
